theory Spec2Isabelle
  imports Complex_Main
begin

unbundle bit_operations_syntax

section \<open>Numbers, errors and the random generator\<close>

text \<open>
  The simulator is Python. Its \<^verbatim>\<open>float\<close> values are modelled as \<^typ>\<open>real\<close>: every
  arithmetic step is exact, so nothing below speaks about IEEE rounding. Python's unbounded
  \<^verbatim>\<open>int\<close> is \<^typ>\<open>int\<close>. Locks are left out: every method body runs under its
  object's lock, and the model runs the calls one after the other.
\<close>

datatype py_error = ValueError | ZeroDivisionError | IndexError

definition py_int :: "real \<Rightarrow> int" where
  \<comment> \<open>\<^verbatim>\<open>int(x)\<close> on a float: truncation toward zero.\<close>
  "py_int x = (if 0 \<le> x then \<lfloor>x\<rfloor> else \<lceil>x\<rceil>)"

definition py_round :: "real \<Rightarrow> int" where
  \<comment> \<open>\<^verbatim>\<open>round(x)\<close>: to the nearest integer, a tie to the even neighbour.\<close>
  "py_round x =
     (let f = \<lfloor>x\<rfloor>; d = x - of_int f
      in if d < 1 / 2 then f
         else if 1 / 2 < d then f + 1
         else if even f then f else f + 1)"

definition py_round2 :: "real \<Rightarrow> real" where
  \<comment> \<open>\<^verbatim>\<open>round(x, 2)\<close>\<close>
  "py_round2 x = of_int (py_round (x * 100)) / 100"

definition py_truediv :: "real \<Rightarrow> real \<Rightarrow> py_error + real" where
  \<comment> \<open>\<^verbatim>\<open>x / y\<close>, which raises on a zero divisor.\<close>
  "py_truediv x y = (if y = 0 then Inl ZeroDivisionError else Inr (x / y))"

text \<open>
  \<^verbatim>\<open>random.Random\<close> belongs to Python's standard library, not to this repository, so
  the generator is a parameter: a state type \<open>'g\<close> with the seeding function and the two
  primitive draws. \<^verbatim>\<open>uniform\<close> and \<^verbatim>\<open>gauss\<close> are the library's last lines,
  \<^verbatim>\<open>a + (b - a) * self.random()\<close> and \<^verbatim>\<open>mu + z * sigma\<close>.
\<close>

record 'g rng_ops =
  seeded :: "int \<Rightarrow> 'g"
  next_random :: "'g \<Rightarrow> real \<times> 'g"
  next_normal :: "'g \<Rightarrow> real \<times> 'g"

definition uniform :: "'g rng_ops \<Rightarrow> real \<Rightarrow> real \<Rightarrow> 'g \<Rightarrow> real \<times> 'g" where
  "uniform ops a b g = (let (u, g') = next_random ops g in (a + (b - a) * u, g'))"

definition gauss :: "'g rng_ops \<Rightarrow> real \<Rightarrow> real \<Rightarrow> 'g \<Rightarrow> real \<times> 'g" where
  "gauss ops mu sigma g = (let (z, g') = next_normal ops g in (mu + z * sigma, g'))"

definition new_rng :: "'g rng_ops \<Rightarrow> 'g \<Rightarrow> int option \<Rightarrow> 'g" where
  \<comment> \<open>\<^verbatim>\<open>random.Random(seed)\<close>; without a seed the state comes from the system's entropy.\<close>
  "new_rng ops entropy seed = (case seed of Some s \<Rightarrow> seeded ops s | None \<Rightarrow> entropy)"

definition counter_ops :: "nat rng_ops" where
  \<comment> \<open>A small deterministic generator, used only to run the model on concrete inputs.\<close>
  "counter_ops =
     \<lparr>seeded = (\<lambda>s. nat \<bar>s\<bar>),
      next_random = (\<lambda>n. (real (n mod 4) / 4, Suc n)),
      next_normal = (\<lambda>n. (real (n mod 3) - 1, Suc n))\<rparr>"

section \<open>sensor.py\<close>

definition MIN_PRESSURE_BAR :: real where
  [simp]: "MIN_PRESSURE_BAR = 0"

definition MAX_PRESSURE_BAR :: real where
  [simp]: "MAX_PRESSURE_BAR = 16 / 10"

definition MIN_CURRENT_MA :: real where
  [simp]: "MIN_CURRENT_MA = 4"

definition MAX_CURRENT_MA :: real where
  [simp]: "MAX_CURRENT_MA = 20"

definition MAX_MODBUS_VALUE :: int where
  [simp]: "MAX_MODBUS_VALUE = 32767"

record 'g PressureSensor =
  channel :: int
  noise_percent :: real
  noise_type :: string
  true_pressure :: real
  measured_pressure :: real
  current_ma :: real
  modbus_value :: int
  fault_mode :: "string option"
  rng :: 'g

definition PressureSensor_init ::
  "'g rng_ops \<Rightarrow> 'g \<Rightarrow> int \<Rightarrow> real \<Rightarrow> string \<Rightarrow> int option \<Rightarrow> 'g PressureSensor" where
  "PressureSensor_init ops entropy ch np nt seed =
     \<lparr>channel = ch, noise_percent = np, noise_type = nt,
      true_pressure = 0, measured_pressure = 0, current_ma = 4, modbus_value = 0,
      fault_mode = None,
      rng = (case seed of Some s \<Rightarrow> new_rng ops entropy (Some (s + ch))
             | None \<Rightarrow> new_rng ops entropy None)\<rparr>"

definition add_noise :: "'g rng_ops \<Rightarrow> 'g PressureSensor \<Rightarrow> real \<Rightarrow> real \<times> 'g" where
  "add_noise ops s v =
     (if noise_percent s \<le> 0 then (v, rng s)
      else
        let noise_factor = noise_percent s / 100;
            (noise, g') =
              (if noise_type s = ''gaussian''
               then gauss ops 0 (noise_factor / 3) (rng s)
               else uniform ops (- noise_factor) noise_factor (rng s));
            noisy_value = v * (1 + noise)
        in (max MIN_PRESSURE_BAR (min MAX_PRESSURE_BAR noisy_value), g'))"

definition pressure_to_current :: "real \<Rightarrow> real" where
  "pressure_to_current pressure_bar =
     (let ratio = pressure_bar / MAX_PRESSURE_BAR
      in MIN_CURRENT_MA + ratio * (MAX_CURRENT_MA - MIN_CURRENT_MA))"

definition current_to_modbus :: "real \<Rightarrow> int" where
  "current_to_modbus c =
     (let ratio = (c - MIN_CURRENT_MA) / (MAX_CURRENT_MA - MIN_CURRENT_MA);
          v = py_int (ratio * of_int MAX_MODBUS_VALUE)
      in max 0 (min MAX_MODBUS_VALUE v))"

definition PressureSensor_update ::
  "'g rng_ops \<Rightarrow> real \<Rightarrow> 'g PressureSensor \<Rightarrow> 'g PressureSensor" where
  "PressureSensor_update ops true_pressure_bar s =
     (let s1 = s\<lparr>true_pressure := max MIN_PRESSURE_BAR (min MAX_PRESSURE_BAR true_pressure_bar)\<rparr>
      in if fault_mode s1 = Some ''wire_break'' then
           s1\<lparr>measured_pressure := 0, current_ma := 0, modbus_value := 0\<rparr>
         else if fault_mode s1 = Some ''sensor_defect'' then
           s1\<lparr>measured_pressure := true_pressure s1, current_ma := 25,
              modbus_value := py_int ((25 - 4) / 16 * 32767)\<rparr>
         else
           let (m, g') = add_noise ops s1 (true_pressure s1);
               c = pressure_to_current m
           in s1\<lparr>measured_pressure := m, current_ma := c,
                 modbus_value := current_to_modbus c, rng := g'\<rparr>)"


definition set_fault :: "string option \<Rightarrow> 'g PressureSensor \<Rightarrow> 'g PressureSensor" where
  "set_fault fm s = s\<lparr>fault_mode := fm\<rparr>"

definition set_noise_config ::
  "real option \<Rightarrow> string option \<Rightarrow> 'g PressureSensor \<Rightarrow> 'g PressureSensor" where
  "set_noise_config np nt s =
     (let s1 = (case np of Some p \<Rightarrow> s\<lparr>noise_percent := p\<rparr> | None \<Rightarrow> s)
      in case nt of Some t \<Rightarrow> s1\<lparr>noise_type := t\<rparr> | None \<Rightarrow> s1)"

text \<open>The public calls of a sensor, and a run of them in order.\<close>

datatype sensor_call =
  Update real
  | Set_fault "string option"
  | Set_noise_config "real option" "string option"

fun sensor_step :: "'g rng_ops \<Rightarrow> 'g PressureSensor \<Rightarrow> sensor_call \<Rightarrow> 'g PressureSensor" where
  "sensor_step ops s (Update p) = PressureSensor_update ops p s"
| "sensor_step ops s (Set_fault fm) = set_fault fm s"
| "sensor_step ops s (Set_noise_config np nt) = set_noise_config np nt s"

definition sensor_run ::
  "'g rng_ops \<Rightarrow> 'g PressureSensor \<Rightarrow> sensor_call list \<Rightarrow> 'g PressureSensor" where
  "sensor_run ops s calls = foldl (sensor_step ops) s calls"

text \<open>What a reader of the sensor sees after each call of a run.\<close>

definition readings :: "'g PressureSensor \<Rightarrow> real \<times> real \<times> int" where
  "readings s = (measured_pressure s, current_ma s, modbus_value s)"

fun sensor_trace ::
  "'g rng_ops \<Rightarrow> 'g PressureSensor \<Rightarrow> sensor_call list \<Rightarrow> (real \<times> real \<times> int) list" where
  "sensor_trace ops s [] = []"
| "sensor_trace ops s (c # cs) =
     (let s' = sensor_step ops s c in readings s' # sensor_trace ops s' cs)"

definition reg_ok :: "int \<Rightarrow> bool" where
  \<comment> \<open>The register values a sensor can hold: the clamped range, or the over-range constant.\<close>
  "reg_ok v = ((0 \<le> v \<and> v \<le> MAX_MODBUS_VALUE) \<or> v = 43006)"

section \<open>config.py: the validated channel configuration\<close>

record SensorConfig =
  enabled :: bool
  cfg_start_pressure :: real
  cfg_target_pressure :: real
  rate_bar_per_min :: real
  auto_start :: bool

definition validate_pressure_range :: "real \<Rightarrow> py_error + real" where
  "validate_pressure_range v = (if \<not> (0 \<le> v \<and> v \<le> 16 / 10) then Inl ValueError else Inr v)"

definition validate_rate_positive :: "real \<Rightarrow> py_error + real" where
  "validate_rate_positive v = (if v \<le> 0 then Inl ValueError else Inr v)"

definition SensorConfig_init ::
  "bool \<Rightarrow> real \<Rightarrow> real \<Rightarrow> real \<Rightarrow> bool \<Rightarrow> py_error + SensorConfig" where
  \<comment> \<open>Construction runs the field validators; the first failure raises.\<close>
  "SensorConfig_init en sp tp r au =
     (case validate_pressure_range sp of Inl e \<Rightarrow> Inl e | Inr sp' \<Rightarrow>
      case validate_pressure_range tp of Inl e \<Rightarrow> Inl e | Inr tp' \<Rightarrow>
      case validate_rate_positive r of Inl e \<Rightarrow> Inl e | Inr r' \<Rightarrow>
        Inr \<lparr>enabled = en, cfg_start_pressure = sp', cfg_target_pressure = tp',
             rate_bar_per_min = r', auto_start = au\<rparr>)"

section \<open>pressure\_simulator.py\<close>

text \<open>
  \<^verbatim>\<open>time.time()\<close> is an input: every method that reads the clock takes the reading
  \<open>now\<close>. The simulator owns its sensor and pushes the current pressure into it.
\<close>

record 'g PressureSimulator =
  sensor :: "'g PressureSensor"
  start_pressure :: real
  target_pressure :: real
  rate_bar_per_sec :: real
  current_pressure :: real
  running :: bool
  last_update :: real

definition PressureSimulator_init ::
  "'g rng_ops \<Rightarrow> real \<Rightarrow> 'g PressureSensor \<Rightarrow> SensorConfig \<Rightarrow> 'g PressureSimulator" where
  "PressureSimulator_init ops now sn config =
     \<lparr>sensor = PressureSensor_update ops (cfg_start_pressure config) sn,
      start_pressure = cfg_start_pressure config,
      target_pressure = cfg_target_pressure config,
      rate_bar_per_sec = rate_bar_per_min config / 60,
      current_pressure = cfg_start_pressure config,
      running = False,
      last_update = now\<rparr>"

definition PressureSimulator_update ::
  "'g rng_ops \<Rightarrow> real \<Rightarrow> 'g PressureSimulator \<Rightarrow> 'g PressureSimulator" where
  "PressureSimulator_update ops now sim =
     (if \<not> running sim then sim
      else
        let delta_t = now - last_update sim;
            sim1 = sim\<lparr>last_update := now\<rparr>;
            delta_p = rate_bar_per_sec sim1 * delta_t;
            sim2 =
              (if current_pressure sim1 < target_pressure sim1 then
                 sim1\<lparr>current_pressure :=
                        min (current_pressure sim1 + delta_p) (target_pressure sim1)\<rparr>
               else if current_pressure sim1 > target_pressure sim1 then
                 sim1\<lparr>current_pressure :=
                        max (current_pressure sim1 - delta_p) (target_pressure sim1)\<rparr>
               else sim1)
        in sim2\<lparr>sensor := PressureSensor_update ops (current_pressure sim2) (sensor sim2)\<rparr>)"

definition start :: "real \<Rightarrow> 'g PressureSimulator \<Rightarrow> 'g PressureSimulator" where
  "start now sim = sim\<lparr>running := True, last_update := now\<rparr>"

definition stop :: "'g PressureSimulator \<Rightarrow> 'g PressureSimulator" where
  "stop sim = sim\<lparr>running := False\<rparr>"

definition reset :: "'g rng_ops \<Rightarrow> 'g PressureSimulator \<Rightarrow> 'g PressureSimulator" where
  "reset ops sim =
     (let sim1 = sim\<lparr>current_pressure := start_pressure sim, running := False\<rparr>
      in sim1\<lparr>sensor := PressureSensor_update ops (current_pressure sim1) (sensor sim1)\<rparr>)"

definition set_target :: "real \<Rightarrow> 'g PressureSimulator \<Rightarrow> 'g PressureSimulator" where
  "set_target tp sim = sim\<lparr>target_pressure := max 0 (min (16 / 10) tp)\<rparr>"

definition set_rate :: "real \<Rightarrow> 'g PressureSimulator \<Rightarrow> 'g PressureSimulator" where
  "set_rate rate_per_min sim = sim\<lparr>rate_bar_per_sec := rate_per_min / 60\<rparr>"

definition set_pressure :: "'g rng_ops \<Rightarrow> real \<Rightarrow> 'g PressureSimulator \<Rightarrow> 'g PressureSimulator" where
  "set_pressure ops pressure sim =
     (let sim1 = sim\<lparr>current_pressure := max 0 (min (16 / 10) pressure)\<rparr>
      in sim1\<lparr>sensor := PressureSensor_update ops (current_pressure sim1) (sensor sim1)\<rparr>)"

definition is_at_target :: "'g PressureSimulator \<Rightarrow> bool" where
  "is_at_target sim = (\<bar>current_pressure sim - target_pressure sim\<bar> < 1 / 1000)"

text \<open>The public calls of a simulator; \<open>Sim_update\<close> and \<open>Sim_start\<close> carry the clock reading.\<close>

datatype sim_call =
  Sim_update real
  | Sim_start real
  | Sim_stop
  | Sim_reset
  | Sim_set_target real
  | Sim_set_rate real
  | Sim_set_pressure real

fun sim_step :: "'g rng_ops \<Rightarrow> 'g PressureSimulator \<Rightarrow> sim_call \<Rightarrow> 'g PressureSimulator" where
  "sim_step ops sim (Sim_update now) = PressureSimulator_update ops now sim"
| "sim_step ops sim (Sim_start now) = start now sim"
| "sim_step ops sim Sim_stop = stop sim"
| "sim_step ops sim Sim_reset = reset ops sim"
| "sim_step ops sim (Sim_set_target tp) = set_target tp sim"
| "sim_step ops sim (Sim_set_rate r) = set_rate r sim"
| "sim_step ops sim (Sim_set_pressure p) = set_pressure ops p sim"

definition sim_run ::
  "'g rng_ops \<Rightarrow> 'g PressureSimulator \<Rightarrow> sim_call list \<Rightarrow> 'g PressureSimulator" where
  "sim_run ops sim calls = foldl (sim_step ops) sim calls"

section \<open>modbus\_hub.py\<close>

text \<open>
  The hub holds the list of simulators, so a call that reaches a simulator through the hub
  returns the hub with that list entry replaced. The callback is a flag (one is registered
  or not) and the list of the events it was handed. The pending \<^verbatim>\<open>threading.Timer\<close> is
  its delay together with the variables its closure captured: the simulator (by position
  in the list), the original target and rate, and the channel number. When it fires is
  the scheduler's business; \<open>restore\<close> is what it then runs.
\<close>

datatype hub_event =
  Pressure_drop_stopped int
  | Pressure_drop int real real real real
  | Pressure_restore int real

record Timer =
  restore_delay :: real
  captured_simulator :: nat
  original_target :: real
  original_rate :: real
  captured_affected :: int

record StoredState =
  stored_target :: real
  stored_rate :: real

record 'g ModbusHub =
  simulators :: "'g PressureSimulator list"
  trigger_slave_id :: int
  trigger_register :: int
  trigger_value :: int
  pressure_drop_rate :: real
  pressure_drop_duration :: real
  affected_sensor :: int
  hub_running :: bool
  trigger_active :: bool
  restore_timer :: "Timer option"
  trigger_callback :: bool
  events :: "hub_event list"
  stored_state :: "StoredState option"

definition ModbusHub_init ::
  "'g PressureSimulator list \<Rightarrow> int \<Rightarrow> int \<Rightarrow> int \<Rightarrow> real \<Rightarrow> real \<Rightarrow> int \<Rightarrow> 'g ModbusHub" where
  "ModbusHub_init sims slave reg val drop_rate drop_duration affected =
     \<lparr>simulators = sims, trigger_slave_id = slave, trigger_register = reg,
      trigger_value = val, pressure_drop_rate = drop_rate,
      pressure_drop_duration = drop_duration, affected_sensor = affected,
      hub_running = False, trigger_active = False, restore_timer = None,
      trigger_callback = False, events = [], stored_state = None\<rparr>"

definition set_trigger_callback :: "'g ModbusHub \<Rightarrow> 'g ModbusHub" where
  "set_trigger_callback h = h\<lparr>trigger_callback := True\<rparr>"

definition notify :: "hub_event \<Rightarrow> 'g ModbusHub \<Rightarrow> 'g ModbusHub" where
  \<comment> \<open>\<^verbatim>\<open>if self._trigger_callback: self._trigger_callback({...})\<close>\<close>
  "notify e h = (if trigger_callback h then h\<lparr>events := events h @ [e]\<rparr> else h)"

definition set_drop_rate :: "real \<Rightarrow> 'g ModbusHub \<Rightarrow> 'g ModbusHub" where
  "set_drop_rate r h = h\<lparr>pressure_drop_rate := max (1 / 100) r\<rparr>"

definition valid_sensor :: "int \<Rightarrow> 'g ModbusHub \<Rightarrow> bool" where
  \<comment> \<open>\<^verbatim>\<open>0 < affected <= len(self.simulators)\<close>\<close>
  "valid_sensor affected h = (0 < affected \<and> affected \<le> int (length (simulators h)))"

definition trigger_pressure_drop ::
  "real \<Rightarrow> real option \<Rightarrow> real option \<Rightarrow> real option \<Rightarrow> int option \<Rightarrow>
   'g ModbusHub \<Rightarrow> 'g ModbusHub" where
  "trigger_pressure_drop now arg_target arg_duration arg_rate arg_sensor h =
     (if trigger_active h then
        let h1 = h\<lparr>restore_timer := None, trigger_active := False\<rparr>;
            affected = (case arg_sensor of Some n \<Rightarrow> n | None \<Rightarrow> affected_sensor h1)
        in if valid_sensor affected h1 then
             let i = nat (affected - 1);
                 simulator = stop (simulators h1 ! i);
                 h2 = (case stored_state h1 of
                         Some st \<Rightarrow>
                           h1\<lparr>simulators := (simulators h1)
                                 [i := set_rate (stored_rate st * 60)
                                         (set_target (stored_target st) simulator)],
                              stored_state := None\<rparr>
                       | None \<Rightarrow> h1\<lparr>simulators := (simulators h1)[i := simulator]\<rparr>)
             in notify (Pressure_drop_stopped affected) h2
           else h1
      else
        let h1 = h\<lparr>trigger_active := True\<rparr>;
            affected = (case arg_sensor of Some n \<Rightarrow> n | None \<Rightarrow> affected_sensor h1)
        in if valid_sensor affected h1 then
             let i = nat (affected - 1);
                 simulator = simulators h1 ! i;
                 orig_target = target_pressure simulator;
                 orig_rate = rate_bar_per_sec simulator;
                 h2 = h1\<lparr>stored_state :=
                          Some \<lparr>stored_target = orig_target, stored_rate = orig_rate\<rparr>\<rparr>;
                 drop_rate = (case arg_rate of Some r \<Rightarrow> r | None \<Rightarrow> pressure_drop_rate h2);
                 current = current_pressure simulator;
                 (drop_target, calc_duration) =
                   (case arg_target of
                      Some tp \<Rightarrow>
                        (let dt = max 0 (min (16 / 10) tp);
                             pressure_delta = \<bar>current - dt\<bar>
                         in (dt, if drop_rate > 0 then pressure_delta / drop_rate else 5))
                    | None \<Rightarrow>
                        (case arg_duration of
                           Some d \<Rightarrow> (max 0 (current - drop_rate * d), d)
                         | None \<Rightarrow>
                             (max 0 (current - drop_rate * pressure_drop_duration h2),
                              pressure_drop_duration h2)));
                 simulator' = start now (set_rate (drop_rate * 60) (set_target drop_target simulator));
                 h3 = notify (Pressure_drop affected current drop_target drop_rate calc_duration)
                        (h2\<lparr>simulators := (simulators h2)[i := simulator']\<rparr>)
             in h3\<lparr>restore_timer :=
                     Some \<lparr>restore_delay = calc_duration + 1 / 2, captured_simulator = i,
                           original_target = orig_target, original_rate = orig_rate,
                           captured_affected = affected\<rparr>\<rparr>
           else h1\<lparr>trigger_active := False\<rparr>)"

definition restore :: "Timer \<Rightarrow> 'g ModbusHub \<Rightarrow> 'g ModbusHub" where
  \<comment> \<open>The closure the timer runs.\<close>
  "restore tm h =
     (let h1 = h\<lparr>trigger_active := False, stored_state := None\<rparr>;
          i = captured_simulator tm;
          simulator = stop (set_rate (original_rate tm * 60)
                        (set_target (original_target tm) (simulators h1 ! i)))
      in notify (Pressure_restore (captured_affected tm) (original_target tm))
           (h1\<lparr>simulators := (simulators h1)[i := simulator]\<rparr>))"

definition stop_monitoring :: "'g ModbusHub \<Rightarrow> 'g ModbusHub" where
  "stop_monitoring h = h\<lparr>hub_running := False, restore_timer := None\<rparr>"

section \<open>timing.py\<close>

record TimingStats =
  response_times :: "real list"
  total_requests :: int

definition TimingStats_init :: TimingStats where
  "TimingStats_init = \<lparr>response_times = [], total_requests = 0\<rparr>"

definition deque_append :: "nat \<Rightarrow> 'a \<Rightarrow> 'a list \<Rightarrow> 'a list" where
  \<comment> \<open>\<^verbatim>\<open>append\<close> on a \<^verbatim>\<open>deque(maxlen=n)\<close>: the new item goes to the right, and an item
      falls off the left when the deque is over its length.\<close>
  "deque_append maxlen x xs = (let ys = xs @ [x] in if maxlen < length ys then tl ys else ys)"

definition TimingStats_record :: "real \<Rightarrow> TimingStats \<Rightarrow> TimingStats" where
  "TimingStats_record response_time_ms ts =
     ts\<lparr>response_times := deque_append 100 response_time_ms (response_times ts),
        total_requests := total_requests ts + 1\<rparr>"

record Stats =
  avg_response_ms :: real
  min_response_ms :: real
  max_response_ms :: real
  stat_jitter_ms :: real
  stat_total_requests :: int

definition py_min :: "real list \<Rightarrow> py_error + real" where
  "py_min xs = (case xs of [] \<Rightarrow> Inl ValueError | y # ys \<Rightarrow> Inr (foldl min y ys))"

definition py_max :: "real list \<Rightarrow> py_error + real" where
  "py_max xs = (case xs of [] \<Rightarrow> Inl ValueError | y # ys \<Rightarrow> Inr (foldl max y ys))"

definition get_stats :: "TimingStats \<Rightarrow> py_error + Stats" where
  "get_stats ts =
     (if response_times ts = [] then
        Inr \<lparr>avg_response_ms = 0, min_response_ms = 0, max_response_ms = 0,
             stat_jitter_ms = 0, stat_total_requests = total_requests ts\<rparr>
      else
        let times = response_times ts
        in case py_truediv (sum_list times) (real (length times)) of Inl e \<Rightarrow> Inl e | Inr avg \<Rightarrow>
           case py_min times of Inl e \<Rightarrow> Inl e | Inr min_time \<Rightarrow>
           case py_max times of Inl e \<Rightarrow> Inl e | Inr max_time \<Rightarrow>
           case (if 1 < length times then
                   (case py_truediv (sum_list (map (\<lambda>t. (t - avg) ^ 2) times))
                           (real (length times)) of
                      Inl e \<Rightarrow> Inl e | Inr variance \<Rightarrow> Inr (sqrt variance))
                 else Inr 0) of Inl e \<Rightarrow> Inl e | Inr jitter \<Rightarrow>
             Inr \<lparr>avg_response_ms = py_round2 avg, min_response_ms = py_round2 min_time,
                  max_response_ms = py_round2 max_time, stat_jitter_ms = py_round2 jitter,
                  stat_total_requests = total_requests ts\<rparr>)"

text \<open>
  The timer. \<^verbatim>\<open>time.sleep\<close> is recorded as the list of the durations it was called with,
  and the elapsed time that \<^verbatim>\<open>time.perf_counter\<close> measures around it is an input of
  \<open>delay\<close>.
\<close>

record 'g ESP32Timer =
  base_delay_ms :: int
  jitter_ms :: int
  stats :: TimingStats
  timer_rng :: 'g
  slept :: "real list"

definition ESP32Timer_init :: "'g rng_ops \<Rightarrow> 'g \<Rightarrow> int \<Rightarrow> int \<Rightarrow> int option \<Rightarrow> 'g ESP32Timer" where
  "ESP32Timer_init ops entropy base jit seed =
     \<lparr>base_delay_ms = base, jitter_ms = jit, stats = TimingStats_init,
      timer_rng = new_rng ops entropy seed, slept = []\<rparr>"

definition delay :: "'g rng_ops \<Rightarrow> real \<Rightarrow> 'g ESP32Timer \<Rightarrow> real \<times> 'g ESP32Timer" where
  "delay ops elapsed_ms t =
     (let base_delay = of_int (base_delay_ms t) / 1000;
          (j, g') = uniform ops (- of_int (jitter_ms t)) (of_int (jitter_ms t)) (timer_rng t);
          jitter = j / 1000;
          actual_delay = max 0 (base_delay + jitter);
          t1 = t\<lparr>timer_rng := g', slept := slept t @ [actual_delay]\<rparr>
      in (elapsed_ms, t1\<lparr>stats := TimingStats_record elapsed_ms (stats t1)\<rparr>))"

definition get_delay_value :: "'g rng_ops \<Rightarrow> 'g ESP32Timer \<Rightarrow> real \<times> 'g ESP32Timer" where
  "get_delay_value ops t =
     (let base_delay = of_int (base_delay_ms t) / 1000;
          (j, g') = uniform ops (- of_int (jitter_ms t)) (of_int (jitter_ms t)) (timer_rng t);
          jitter = j / 1000
      in (max 0 (base_delay + jitter), t\<lparr>timer_rng := g'\<rparr>))"

section \<open>modbus\_device.py: the configuration registers\<close>

text \<open>
  The holding registers are a \<^verbatim>\<open>ModbusSequentialDataBlock\<close> of the pymodbus library that
  starts at address 0: a plain array, written and read at the address given. Its
  \<^verbatim>\<open>setValues\<close> reports a write that does not fit instead of raising.
\<close>

definition setValues :: "nat \<Rightarrow> int list \<Rightarrow> int list \<Rightarrow> int list" where
  "setValues address vals block =
     (if address + length vals \<le> length block
      then take address block @ vals @ drop (address + length vals) block
      else block)"

definition getValues :: "nat \<Rightarrow> nat \<Rightarrow> int list \<Rightarrow> int list" where
  "getValues address count block = take count (drop address block)"

definition REG_DATA_TYPE_BASE :: nat where
  [simp]: "REG_DATA_TYPE_BASE = 4096"

definition REG_UART_PARAMS :: nat where
  [simp]: "REG_UART_PARAMS = 8192"

definition REG_DEVICE_ADDR :: nat where
  [simp]: "REG_DEVICE_ADDR = 16384"

definition REG_SOFTWARE_VER :: nat where
  [simp]: "REG_SOFTWARE_VER = 32768"

definition DATA_TYPE_4_20MA :: int where
  [simp]: "DATA_TYPE_4_20MA = 3"

definition BAUD_RATES :: "int \<rightharpoonup> int" where
  "BAUD_RATES = map_of [(0, 4800), (1, 9600), (2, 19200), (3, 38400), (4, 57600), (5, 115200)]"

definition PARITY_MODES :: "int \<rightharpoonup> string" where
  "PARITY_MODES = map_of [(0, ''N''), (1, ''E''), (2, ''O'')]"

definition dict_get :: "('k \<rightharpoonup> 'v) \<Rightarrow> 'k \<Rightarrow> 'v \<Rightarrow> 'v" where
  \<comment> \<open>\<^verbatim>\<open>d.get(k, default)\<close>\<close>
  "dict_get d k dflt = (case d k of Some v \<Rightarrow> v | None \<Rightarrow> dflt)"

record ModbusDevice =
  slave_id :: int
  holding_registers :: "int list"
  current_baudrate :: int
  current_parity :: string

definition ModbusDevice_init :: "int \<Rightarrow> ModbusDevice" where
  "ModbusDevice_init sid =
     (let hr_values = replicate 32769 0;
          hr_values = fold (\<lambda>i vs. vs[4096 + i := DATA_TYPE_4_20MA]) [0..<8] hr_values;
          hr_values = hr_values[8192 := 0];
          hr_values = hr_values[16384 := sid];
          hr_values = hr_values[32768 := 100]
      in \<lparr>slave_id = sid, holding_registers = hr_values,
          current_baudrate = 9600, current_parity = ''N''\<rparr>)"

definition set_data_type :: "int \<Rightarrow> int \<Rightarrow> ModbusDevice \<Rightarrow> ModbusDevice" where
  "set_data_type ch data_type d =
     (if 1 \<le> ch \<and> ch \<le> 8 \<and> 0 \<le> data_type \<and> data_type \<le> 4
      then d\<lparr>holding_registers :=
               setValues (nat (4096 + ch - 1)) [data_type] (holding_registers d)\<rparr>
      else d)"

definition py_first :: "'a list \<Rightarrow> py_error + 'a" where
  \<comment> \<open>\<^verbatim>\<open>xs[0]\<close>\<close>
  "py_first xs = (case xs of [] \<Rightarrow> Inl IndexError | x # _ \<Rightarrow> Inr x)"

definition get_device_address :: "ModbusDevice \<Rightarrow> py_error + int" where
  "get_device_address d = py_first (getValues REG_DEVICE_ADDR 1 (holding_registers d))"

definition set_device_address :: "int \<Rightarrow> ModbusDevice \<Rightarrow> ModbusDevice" where
  "set_device_address address d =
     (if 1 \<le> address \<and> address \<le> 255
      then d\<lparr>holding_registers := setValues REG_DEVICE_ADDR [address] (holding_registers d)\<rparr>
      else d)"

definition set_uart_params :: "int \<Rightarrow> int \<Rightarrow> ModbusDevice \<Rightarrow> ModbusDevice" where
  "set_uart_params parity_code baud_code d =
     (let v = push_bit 8 parity_code OR baud_code;
          d1 = d\<lparr>holding_registers := setValues REG_UART_PARAMS [v] (holding_registers d)\<rparr>;
          baudrate = dict_get BAUD_RATES baud_code 9600;
          parity = dict_get PARITY_MODES parity_code ''N''
      in d1\<lparr>current_baudrate := baudrate, current_parity := parity\<rparr>)"

definition get_uart_params :: "ModbusDevice \<Rightarrow> py_error + int \<times> string" where
  "get_uart_params d =
     (case py_first (getValues REG_UART_PARAMS 1 (holding_registers d)) of
        Inl e \<Rightarrow> Inl e
      | Inr v \<Rightarrow>
          let parity_code = drop_bit 8 v AND 255;
              baud_code = v AND 255
          in Inr (dict_get BAUD_RATES baud_code 9600, dict_get PARITY_MODES parity_code ''N''))"


section \<open>Simulator runs that respect the rate and the clock\<close>

definition sim_inv :: "'g PressureSimulator \<Rightarrow> bool" where
  \<comment> \<open>What a validated configuration establishes.\<close>
  "sim_inv sim =
     (0 \<le> current_pressure sim \<and> current_pressure sim \<le> 16 / 10 \<and>
      0 \<le> target_pressure sim \<and> target_pressure sim \<le> 16 / 10 \<and>
      0 \<le> start_pressure sim \<and> start_pressure sim \<le> 16 / 10 \<and>
      0 \<le> rate_bar_per_sec sim)"

fun call_ok :: "'g PressureSimulator \<Rightarrow> sim_call \<Rightarrow> bool" where
  \<comment> \<open>A call with a non-negative rate and a clock that has not gone backwards.\<close>
  "call_ok sim (Sim_update now) = (last_update sim \<le> now)"
| "call_ok sim (Sim_set_rate r) = (0 \<le> r)"
| "call_ok sim _ = True"

fun calls_ok :: "'g rng_ops \<Rightarrow> 'g PressureSimulator \<Rightarrow> sim_call list \<Rightarrow> bool" where
  "calls_ok ops sim [] = True"
| "calls_ok ops sim (c # cs) = (call_ok sim c \<and> calls_ok ops (sim_step ops sim c) cs)"

section \<open>Concrete inputs\<close>

definition cfg1 :: SensorConfig where
  "cfg1 = \<lparr>enabled = True, cfg_start_pressure = 1 / 2, cfg_target_pressure = 1,
            rate_bar_per_min = 6, auto_start = False\<rparr>"

definition cfg2 :: SensorConfig where
  "cfg2 = \<lparr>enabled = True, cfg_start_pressure = 3 / 2, cfg_target_pressure = 12 / 10,
            rate_bar_per_min = 12, auto_start = False\<rparr>"

definition sim1 :: "nat PressureSimulator" where
  \<comment> \<open>Channel 1: at 0.5 bar, target 1.0 bar, 6 bar/min, noiseless sensor, seed 42.\<close>
  "sim1 = PressureSimulator_init counter_ops 0
            (PressureSensor_init counter_ops 0 1 0 ''gaussian'' (Some 42)) cfg1"

definition sim2 :: "nat PressureSimulator" where
  \<comment> \<open>Channel 2: at 1.5 bar, target 1.2 bar, 12 bar/min.\<close>
  "sim2 = PressureSimulator_init counter_ops 0
            (PressureSensor_init counter_ops 0 2 0 ''gaussian'' (Some 42)) cfg2"

definition hub12 :: "nat ModbusHub" where
  \<comment> \<open>A hub over both channels: drop rate 0.5 bar/s for 5 s, channel 1 affected.\<close>
  "hub12 = ModbusHub_init [sim1, sim2] 2 0 1 (1 / 2) 5 1"

definition hub12_dropping :: "nat ModbusHub" where
  \<comment> \<open>\<open>hub12\<close> after \<^verbatim>\<open>trigger_pressure_drop(sensor=1)\<close> at time 0.\<close>
  "hub12_dropping = trigger_pressure_drop 0 None None None (Some 1) hub12"

definition hub12_cancelled_other :: "nat ModbusHub" where
  \<comment> \<open>\<open>hub12_dropping\<close> after \<^verbatim>\<open>trigger_pressure_drop(sensor=2)\<close> at time 1.\<close>
  "hub12_cancelled_other = trigger_pressure_drop 1 None None None (Some 2) hub12_dropping"

definition hub12_cancelled_invalid :: "nat ModbusHub" where
  \<comment> \<open>\<open>hub12_dropping\<close> after \<^verbatim>\<open>trigger_pressure_drop(sensor=5)\<close> at time 1.\<close>
  "hub12_cancelled_invalid = trigger_pressure_drop 1 None None None (Some 5) hub12_dropping"

definition record_all :: "real list \<Rightarrow> TimingStats" where
  \<comment> \<open>A fresh \<open>TimingStats\<close> after \<open>record\<close> was called with each sample in turn.\<close>
  "record_all samples = foldl (\<lambda>ts x. TimingStats_record x ts) TimingStats_init samples"

definition timer1 :: "nat ESP32Timer" where
  \<comment> \<open>\<^verbatim>\<open>ESP32Timer(base_delay_ms=10, jitter_ms=2, seed=42)\<close>\<close>
  "timer1 = ESP32Timer_init counter_ops 0 10 2 (Some 42)"

definition timer0 :: "nat ESP32Timer" where
  \<comment> \<open>\<^verbatim>\<open>ESP32Timer(base_delay_ms=5, jitter_ms=0, seed=42)\<close>\<close>
  "timer0 = ESP32Timer_init counter_ops 0 5 0 (Some 42)"

definition device1 :: ModbusDevice where
  \<comment> \<open>\<^verbatim>\<open>ModbusDevice(sensors, timer, slave_id=1)\<close>\<close>
  "device1 = ModbusDevice_init 1"

section \<open>Sensor: the register range, the mapping, the faults, the seed\<close>

lemma current_to_modbus_range:
  "0 \<le> current_to_modbus c \<and> current_to_modbus c \<le> MAX_MODBUS_VALUE"
  by (simp add: current_to_modbus_def Let_def)

lemma update_modbus_value:
  "modbus_value (PressureSensor_update ops p s) =
     (if fault_mode s = Some ''wire_break'' then 0
      else if fault_mode s = Some ''sensor_defect'' then 43006
      else current_to_modbus (current_ma (PressureSensor_update ops p s)))"
  by (simp add: PressureSensor_update_def Let_def py_int_def split: prod.splits)







lemma step_reg_ok:
  assumes ok: "reg_ok (modbus_value s)"
  shows "reg_ok (modbus_value (sensor_step ops s c))"
proof (cases c)
  case (Update p)
  then show ?thesis
    using current_to_modbus_range [of "current_ma (PressureSensor_update ops p s)"]
    by (simp add: reg_ok_def update_modbus_value)
next
  case (Set_fault fm)
  then show ?thesis using ok by (simp add: set_fault_def)
next
  case (Set_noise_config np nt)
  then show ?thesis using ok by (simp add: set_noise_config_def split: option.splits)
qed

lemma run_reg_ok: "reg_ok (modbus_value s) \<Longrightarrow> reg_ok (modbus_value (sensor_run ops s calls))"
  unfolding sensor_run_def
  by (induction calls arbitrary: s) (simp_all add: step_reg_ok)

lemma init_reg_ok: "reg_ok (modbus_value (PressureSensor_init ops e ch np nt seed))"
  by (simp add: reg_ok_def PressureSensor_init_def)





lemma add_noise_channel: "add_noise ops (s\<lparr>channel := c\<rparr>) v = add_noise ops s v"
  by (simp add: add_noise_def Let_def cong: if_cong)

lemma add_noise_true_pressure: "add_noise ops (s\<lparr>true_pressure := c\<rparr>) v = add_noise ops s v"
  by (simp add: add_noise_def Let_def cong: if_cong)

lemma update_channel:
  "PressureSensor_update ops p (s\<lparr>channel := c\<rparr>) =
   (PressureSensor_update ops p s)\<lparr>channel := c\<rparr>"
  by (cases "add_noise ops s (max 0 (min (16 / 10) p))")
     (simp add: PressureSensor_update_def Let_def add_noise_channel add_noise_true_pressure)

lemma step_channel:
  "sensor_step ops (s\<lparr>channel := c\<rparr>) call = (sensor_step ops s call)\<lparr>channel := c\<rparr>"
  by (cases call)
     (simp_all add: update_channel set_fault_def set_noise_config_def split: option.splits)

lemma trace_channel:
  "sensor_trace ops (s\<lparr>channel := c\<rparr>) calls = sensor_trace ops s calls"
  by (induction calls arbitrary: s) (simp_all add: step_channel Let_def readings_def)

lemma init_channel:
  "seed1 + ch1 = seed2 + ch2 \<Longrightarrow>
   PressureSensor_init ops e1 ch1 np nt (Some seed1) =
   (PressureSensor_init ops e2 ch2 np nt (Some seed2))\<lparr>channel := ch1\<rparr>"
  by (simp add: PressureSensor_init_def new_rng_def)

text \<open>
  C1 (amended). The register value of a sensor built by the constructor and driven by any
  sequence of \<open>update\<close>, \<open>set_fault\<close> and \<open>set_noise_config\<close> calls lies in
  \<open>[0, 32767]\<close> or is \<open>43006\<close>; an update made while the fault mode is not
  \<open>sensor_defect\<close> (the over-range fault) leaves it in \<open>[0, 32767]\<close>, and an update
  under \<open>sensor_defect\<close> sets it to \<open>43006 = int(21 / 16 * 32767)\<close>, which the
  clamp of \<open>current_to_modbus\<close> never sees.
\<close>

theorem modbus_value_range:
  "(let s = sensor_run ops (PressureSensor_init ops e ch np nt seed) calls
    in (0 \<le> modbus_value s \<and> modbus_value s \<le> MAX_MODBUS_VALUE) \<or> modbus_value s = 43006) \<and>
   (fault_mode s \<noteq> Some ''sensor_defect'' \<longrightarrow>
      0 \<le> modbus_value (PressureSensor_update ops p s) \<and>
      modbus_value (PressureSensor_update ops p s) \<le> MAX_MODBUS_VALUE) \<and>
   (fault_mode s = Some ''sensor_defect'' \<longrightarrow>
      modbus_value (PressureSensor_update ops p s) = 43006)"
proof -
  have "reg_ok (modbus_value (sensor_run ops (PressureSensor_init ops e ch np nt seed) calls))"
    by (rule run_reg_ok [OF init_reg_ok])
  moreover have "0 \<le> current_to_modbus (current_ma (PressureSensor_update ops p s)) \<and>
      current_to_modbus (current_ma (PressureSensor_update ops p s)) \<le> MAX_MODBUS_VALUE"
    by (rule current_to_modbus_range)
  ultimately show ?thesis
    by (simp add: reg_ok_def Let_def update_modbus_value)
qed

theorem modbus_value_range_witness:
  "fault_mode (set_fault None (PressureSensor_init counter_ops 0 1 2 ''uniform'' (Some 42)))
     \<noteq> Some ''sensor_defect'' \<and>
   0 \<le> modbus_value (PressureSensor_update counter_ops 1
          (set_fault None (PressureSensor_init counter_ops 0 1 2 ''uniform'' (Some 42)))) \<and>
   modbus_value (PressureSensor_update counter_ops 1
          (set_fault None (PressureSensor_init counter_ops 0 1 2 ''uniform'' (Some 42))))
     \<le> MAX_MODBUS_VALUE \<and>
   fault_mode (set_fault (Some ''sensor_defect'')
          (PressureSensor_init counter_ops 0 1 2 ''uniform'' (Some 42)))
     = Some ''sensor_defect'' \<and>
   modbus_value (PressureSensor_update counter_ops 1
          (set_fault (Some ''sensor_defect'')
             (PressureSensor_init counter_ops 0 1 2 ''uniform'' (Some 42)))) = 43006"
  using modbus_value_range
          [of counter_ops 0 1 2 "''uniform''" "Some 42" "[]"
              "set_fault None (PressureSensor_init counter_ops 0 1 2 ''uniform'' (Some 42))" 1]
        modbus_value_range
          [of counter_ops 0 1 2 "''uniform''" "Some 42" "[]"
              "set_fault (Some ''sensor_defect'')
                 (PressureSensor_init counter_ops 0 1 2 ''uniform'' (Some 42))" 1]
  by (simp add: set_fault_def PressureSensor_init_def)

text \<open>
  The claim as written fails: after \<open>set_fault('sensor_defect')\<close> one update leaves the
  register value at 43006, above 32767.
\<close>

theorem modbus_value_range_counterexample:
  "\<not> (0 \<le> modbus_value (sensor_run counter_ops
            (PressureSensor_init counter_ops 0 1 2 ''gaussian'' (Some 42))
            [Set_fault (Some ''sensor_defect''), Update 1]) \<and>
      modbus_value (sensor_run counter_ops
            (PressureSensor_init counter_ops 0 1 2 ''gaussian'' (Some 42))
            [Set_fault (Some ''sensor_defect''), Update 1]) \<le> MAX_MODBUS_VALUE)"
  by (simp add: sensor_run_def set_fault_def update_modbus_value)




text \<open>
  C6 (amended). Under the \<open>wire_break\<close> (open-circuit) fault, \<open>update\<close> sets the
  measured value to 0, the transducer code to 0 mA, which is below the minimum code of
  4 mA, and the register value to 0, whatever the input; it stores the clamped input as
  the true value and draws nothing from the random stream.
\<close>

theorem update_wire_break:
  assumes "fault_mode s = Some ''wire_break''"
  shows "PressureSensor_update ops v s =
           s\<lparr>true_pressure := max MIN_PRESSURE_BAR (min MAX_PRESSURE_BAR v),
             measured_pressure := 0, current_ma := 0, modbus_value := 0\<rparr> \<and>
         current_ma (PressureSensor_update ops v s) < MIN_CURRENT_MA"
  using assms by (simp add: PressureSensor_update_def)

theorem update_wire_break_witness:
  "fault_mode (set_fault (Some ''wire_break'')
      (PressureSensor_init counter_ops 0 1 2 ''gaussian'' (Some 42))) = Some ''wire_break'' \<and>
   measured_pressure (PressureSensor_update counter_ops 1
      (set_fault (Some ''wire_break'')
         (PressureSensor_init counter_ops 0 1 2 ''gaussian'' (Some 42)))) = 0 \<and>
   current_ma (PressureSensor_update counter_ops 1
      (set_fault (Some ''wire_break'')
         (PressureSensor_init counter_ops 0 1 2 ''gaussian'' (Some 42)))) = 0 \<and>
   modbus_value (PressureSensor_update counter_ops 1
      (set_fault (Some ''wire_break'')
         (PressureSensor_init counter_ops 0 1 2 ''gaussian'' (Some 42)))) = 0"
  using update_wire_break
          [of "set_fault (Some ''wire_break'')
                 (PressureSensor_init counter_ops 0 1 2 ''gaussian'' (Some 42))" counter_ops 1]
  by (simp add: set_fault_def)

text \<open>
  The claim as written fails on the code: under \<open>wire_break\<close> the transducer code is
  0 mA, not the minimum code \<open>MIN_CURRENT_MA\<close> = 4 mA.
\<close>

theorem update_wire_break_counterexample:
  "current_ma (PressureSensor_update counter_ops 1
      (set_fault (Some ''wire_break'')
         (PressureSensor_init counter_ops 0 1 2 ''gaussian'' (Some 42)))) \<noteq> MIN_CURRENT_MA"
  by (simp add: PressureSensor_update_def set_fault_def)

text \<open>
  C9. Two sensors built with a seed read the same \<open>measured_pressure\<close>, \<open>current_ma\<close>
  and \<open>modbus_value\<close> after every call of the same sequence of calls, given the same
  noise configuration, as soon as \<open>seed + channel\<close> is the same for both: in particular
  when they have the same seed and the same channel. The entropy that an unseeded
  generator would start from plays no part.
\<close>

theorem seeded_sensors_agree:
  assumes "seed1 + ch1 = seed2 + ch2"
  shows "sensor_trace ops (PressureSensor_init ops e1 ch1 np nt (Some seed1)) calls =
         sensor_trace ops (PressureSensor_init ops e2 ch2 np nt (Some seed2)) calls"
  unfolding init_channel [OF assms, of ops e1 np nt e2] by (rule trace_channel)

theorem seeded_sensors_agree_witness:
  "(42::int) + 1 = 42 + 1 \<and>
   sensor_trace counter_ops (PressureSensor_init counter_ops 5 1 2 ''uniform'' (Some 42))
      [Update 1, Set_noise_config (Some 3) (Some ''gaussian''), Update (1 / 2)] =
   sensor_trace counter_ops (PressureSensor_init counter_ops 9 1 2 ''uniform'' (Some 42))
      [Update 1, Set_noise_config (Some 3) (Some ''gaussian''), Update (1 / 2)]"
  using seeded_sensors_agree
          [where ?seed1.0 = 42 and ?ch1.0 = 1 and ?seed2.0 = 42 and ?ch2.0 = 1
             and ops = counter_ops and ?e1.0 = 5 and ?e2.0 = 9 and np = 2 and nt = "''uniform''"
             and calls = "[Update 1, Set_noise_config (Some 3) (Some ''gaussian''), Update (1 / 2)]"]
  by simp

section \<open>Simulator: range and direction\<close>

lemma cfg1_valid: "SensorConfig_init True (1 / 2) 1 6 False = Inr cfg1"
  by (simp add: SensorConfig_init_def validate_pressure_range_def validate_rate_positive_def
        cfg1_def)

lemma cfg2_valid: "SensorConfig_init True (3 / 2) (12 / 10) 12 False = Inr cfg2"
  by (simp add: SensorConfig_init_def validate_pressure_range_def validate_rate_positive_def
        cfg2_def)

lemma SensorConfig_init_Inr:
  assumes "SensorConfig_init en sp tp r au = Inr cfg"
  shows "0 \<le> cfg_start_pressure cfg \<and> cfg_start_pressure cfg \<le> 16 / 10 \<and>
         0 \<le> cfg_target_pressure cfg \<and> cfg_target_pressure cfg \<le> 16 / 10 \<and>
         0 < rate_bar_per_min cfg"
  using assms
  by (auto simp: SensorConfig_init_def validate_pressure_range_def validate_rate_positive_def
        split: if_splits)

lemma init_sim_inv:
  assumes "SensorConfig_init en sp tp r au = Inr cfg"
  shows "sim_inv (PressureSimulator_init ops now sn cfg)"
  using SensorConfig_init_Inr [OF assms] by (simp add: sim_inv_def PressureSimulator_init_def)

lemma update_fields:
  "target_pressure (PressureSimulator_update ops now sim) = target_pressure sim"
  "start_pressure (PressureSimulator_update ops now sim) = start_pressure sim"
  "rate_bar_per_sec (PressureSimulator_update ops now sim) = rate_bar_per_sec sim"
  "running (PressureSimulator_update ops now sim) = running sim"
  by (simp_all add: PressureSimulator_update_def Let_def)

lemma update_current_pressure:
  "current_pressure (PressureSimulator_update ops now sim) =
     (if \<not> running sim then current_pressure sim
      else if current_pressure sim < target_pressure sim then
        min (current_pressure sim + rate_bar_per_sec sim * (now - last_update sim))
            (target_pressure sim)
      else if current_pressure sim > target_pressure sim then
        max (current_pressure sim - rate_bar_per_sec sim * (now - last_update sim))
            (target_pressure sim)
      else current_pressure sim)"
  by (simp add: PressureSimulator_update_def Let_def)

lemma update_sim_inv:
  assumes "sim_inv sim" and "last_update sim \<le> now"
  shows "sim_inv (PressureSimulator_update ops now sim)"
proof -
  have d: "0 \<le> rate_bar_per_sec sim * (now - last_update sim)"
    using assms by (simp add: sim_inv_def)
  show ?thesis
    using assms(1) d unfolding sim_inv_def update_fields update_current_pressure
    by (simp only: split: if_splits) (simp add: min_def max_def; linarith)
qed

lemma step_sim_inv:
  assumes "sim_inv sim" and "call_ok sim c"
  shows "sim_inv (sim_step ops sim c)"
proof (cases c)
  case (Sim_update now)
  then show ?thesis using assms update_sim_inv [of sim now ops] by simp
next
  case (Sim_start now)
  then show ?thesis using assms by (simp add: sim_inv_def start_def)
next
  case Sim_stop
  then show ?thesis using assms by (simp add: sim_inv_def stop_def)
next
  case Sim_reset
  then show ?thesis using assms by (simp add: sim_inv_def reset_def Let_def)
next
  case (Sim_set_target tp)
  then show ?thesis using assms by (simp add: sim_inv_def set_target_def)
next
  case (Sim_set_rate r)
  then show ?thesis using assms by (simp add: sim_inv_def set_rate_def)
next
  case (Sim_set_pressure p)
  then show ?thesis using assms by (simp add: sim_inv_def set_pressure_def Let_def)
qed

lemma run_sim_inv:
  "sim_inv sim \<Longrightarrow> calls_ok ops sim calls \<Longrightarrow> sim_inv (sim_run ops sim calls)"
  unfolding sim_run_def
  by (induction calls arbitrary: sim) (simp_all add: step_sim_inv)

text \<open>
  X1. From a validated configuration, as long as every rate handed to \<open>set_rate\<close> is
  non-negative and the clock never reads earlier than the last update, the current
  pressure stays in \<open>[0, 1.6]\<close> under any interleaving of the public calls.
\<close>

theorem current_pressure_range:
  assumes "SensorConfig_init en sp tp r au = Inr cfg"
    and "calls_ok ops (PressureSimulator_init ops now sn cfg) calls"
  shows "0 \<le> current_pressure (sim_run ops (PressureSimulator_init ops now sn cfg) calls) \<and>
         current_pressure (sim_run ops (PressureSimulator_init ops now sn cfg) calls) \<le> 16 / 10"
  using run_sim_inv [OF init_sim_inv [OF assms(1)] assms(2)] by (simp add: sim_inv_def)

theorem current_pressure_range_witness:
  "SensorConfig_init True (1 / 2) 1 6 False = Inr cfg1 \<and>
   calls_ok counter_ops sim1 [Sim_start 0, Sim_set_rate 60, Sim_update 1] \<and>
   0 \<le> current_pressure (sim_run counter_ops sim1 [Sim_start 0, Sim_set_rate 60, Sim_update 1]) \<and>
   current_pressure (sim_run counter_ops sim1 [Sim_start 0, Sim_set_rate 60, Sim_update 1])
     \<le> 16 / 10"
proof -
  have ok: "calls_ok counter_ops
      (PressureSimulator_init counter_ops 0
         (PressureSensor_init counter_ops 0 1 0 ''gaussian'' (Some 42)) cfg1)
      [Sim_start 0, Sim_set_rate 60, Sim_update 1]"
    by (simp add: PressureSimulator_init_def start_def set_rate_def)
  show ?thesis
    using current_pressure_range [OF cfg1_valid ok] ok cfg1_valid by (simp add: sim1_def)
qed

text \<open>
  X2. A running simulator never overshoots: an update from at or below the target ends at
  or below it, one from at or above ends at or above it, whatever the rate and the clock;
  and with a non-negative rate and a clock that has not gone backwards the update does
  not move away from the target.
\<close>

theorem update_no_overshoot:
  "(if current_pressure sim \<le> target_pressure sim
    then current_pressure (PressureSimulator_update ops now sim) \<le> target_pressure sim \<and>
         (if 0 \<le> rate_bar_per_sec sim \<and> last_update sim \<le> now
          then current_pressure sim \<le> current_pressure (PressureSimulator_update ops now sim)
          else True)
    else target_pressure sim \<le> current_pressure (PressureSimulator_update ops now sim) \<and>
         (if 0 \<le> rate_bar_per_sec sim \<and> last_update sim \<le> now
          then current_pressure (PressureSimulator_update ops now sim) \<le> current_pressure sim
          else True))"
proof -
  have d: "0 \<le> rate_bar_per_sec sim * (now - last_update sim)"
    if "0 \<le> rate_bar_per_sec sim \<and> last_update sim \<le> now"
    using that by simp
  show ?thesis
    unfolding update_current_pressure using d
    by (simp only: split: if_splits) (simp add: min_def max_def; linarith)
qed

text \<open>
  C4. The claim fails on the code: \<open>set_rate\<close> stores any rate, also a negative one.
  From the validated configuration \<open>cfg1\<close> (0.5 bar, target 1.0 bar), \<open>start\<close>,
  \<open>set_rate(-60)\<close> and one update a second later leave the current pressure at -0.5 bar:
  outside \<open>[0, 1.6]\<close>, and further from the target than before.
\<close>

theorem negative_rate_leaves_range:
  "SensorConfig_init True (1 / 2) 1 6 False = Inr cfg1 \<and>
   current_pressure (sim_run counter_ops sim1 [Sim_start 0, Sim_set_rate (- 60), Sim_update 1])
     = - 1 / 2 \<and>
   target_pressure (sim_run counter_ops sim1 [Sim_start 0, Sim_set_rate (- 60), Sim_update 1])
     = 1 \<and>
   true_pressure (sensor (sim_run counter_ops sim1
      [Sim_start 0, Sim_set_rate (- 60), Sim_update 1])) = 0"
  by (simp add: cfg1_valid sim_run_def sim1_def cfg1_def PressureSimulator_init_def start_def
        set_rate_def PressureSimulator_update_def PressureSensor_update_def
        PressureSensor_init_def Let_def add_noise_def)

section \<open>Hub: triggering, cancelling, rejecting\<close>

lemma hub_active_reset:
  "\<not> trigger_active h \<Longrightarrow> h\<lparr>trigger_active := True, trigger_active := False\<rparr> = h"
  by (cases h) simp

text \<open>
  C7. A trigger on an inactive hub whose channel (the \<open>sensor\<close> argument, or the
  configured one when none is given) is outside \<open>1 .. len(simulators)\<close> returns the
  hub as it was: the active flag is back at false, the stored snapshot and the timer are
  untouched, no event is emitted and no simulator is changed.
\<close>

theorem trigger_invalid_sensor_rejected:
  assumes "\<not> trigger_active h"
    and "\<not> valid_sensor (case arg_sensor of Some n \<Rightarrow> n | None \<Rightarrow> affected_sensor h) h"
  shows "trigger_pressure_drop now arg_target arg_duration arg_rate arg_sensor h = h"
proof -
  have v: "\<not> valid_sensor
      (case arg_sensor of Some n \<Rightarrow> n | None \<Rightarrow> affected_sensor (h\<lparr>trigger_active := True\<rparr>))
      (h\<lparr>trigger_active := True\<rparr>)"
    using assms(2) by (cases arg_sensor) (simp_all add: valid_sensor_def)
  show ?thesis
    unfolding trigger_pressure_drop_def Let_def if_not_P [OF assms(1)] if_not_P [OF v]
    by (rule hub_active_reset [OF assms(1)])
qed

theorem trigger_invalid_sensor_rejected_witness:
  "\<not> trigger_active hub12 \<and>
   \<not> valid_sensor (case Some 5 of Some n \<Rightarrow> n | None \<Rightarrow> affected_sensor hub12) hub12 \<and>
   trigger_pressure_drop 0 (Some (2 / 10)) None None (Some 5) hub12 = hub12"
proof -
  have a: "\<not> trigger_active hub12"
    by (simp add: hub12_def ModbusHub_init_def)
  have b: "\<not> valid_sensor (case Some 5 of Some n \<Rightarrow> n | None \<Rightarrow> affected_sensor hub12) hub12"
    by (simp add: hub12_def ModbusHub_init_def valid_sensor_def)
  show ?thesis
    using trigger_invalid_sensor_rejected [OF a b, of 0 "Some (2 / 10)" None None] a b by simp
qed

lemma sim1_fields:
  "target_pressure sim1 = 1" "rate_bar_per_sec sim1 = 1 / 10" "current_pressure sim1 = 1 / 2"
  "running sim1 = False"
  by (simp_all add: sim1_def cfg1_def PressureSimulator_init_def)

lemma sim2_fields:
  "target_pressure sim2 = 12 / 10" "rate_bar_per_sec sim2 = 2 / 10" "current_pressure sim2 = 3 / 2"
  "running sim2 = False"
  by (simp_all add: sim2_def cfg2_def PressureSimulator_init_def)

lemma hub12_dropping_eq:
  "hub12_dropping =
     hub12\<lparr>trigger_active := True,
           stored_state := Some \<lparr>stored_target = 1, stored_rate = 1 / 10\<rparr>,
           simulators := [start 0 (set_rate 30 (set_target 0 sim1)), sim2],
           restore_timer := Some \<lparr>restore_delay = 11 / 2, captured_simulator = 0,
                                 original_target = 1, original_rate = 1 / 10,
                                 captured_affected = 1\<rparr>\<rparr>"
  by (simp add: hub12_dropping_def trigger_pressure_drop_def hub12_def ModbusHub_init_def
        valid_sensor_def notify_def Let_def sim1_fields)


lemma notify_fields:
  "trigger_active (notify e h) = trigger_active h"
  "stored_state (notify e h) = stored_state h"
  "simulators (notify e h) = simulators h"
  "restore_timer (notify e h) = restore_timer h"
  "affected_sensor (notify e h) = affected_sensor h"
  by (simp_all add: notify_def)

lemma trigger_when_inactive:
  assumes "\<not> trigger_active h"
    and "affected = (case arg_sensor of Some n \<Rightarrow> n | None \<Rightarrow> affected_sensor h)"
    and "valid_sensor affected h"
  shows "\<exists>dt cd dr.
     trigger_pressure_drop now arg_target arg_duration arg_rate arg_sensor h =
       (notify (Pressure_drop affected (current_pressure (simulators h ! nat (affected - 1)))
                  dt dr cd)
          (h\<lparr>trigger_active := True,
             stored_state :=
               Some \<lparr>stored_target = target_pressure (simulators h ! nat (affected - 1)),
                     stored_rate = rate_bar_per_sec (simulators h ! nat (affected - 1))\<rparr>,
             simulators := (simulators h)
               [nat (affected - 1) :=
                  start now (set_rate (dr * 60)
                    (set_target dt (simulators h ! nat (affected - 1))))]\<rparr>))
       \<lparr>restore_timer :=
          Some \<lparr>restore_delay = cd + 1 / 2, captured_simulator = nat (affected - 1),
                original_target = target_pressure (simulators h ! nat (affected - 1)),
                original_rate = rate_bar_per_sec (simulators h ! nat (affected - 1)),
                captured_affected = affected\<rparr>\<rparr>"
proof -
  let ?h1 = "h\<lparr>trigger_active := True\<rparr>"
  have a: "(case arg_sensor of Some n \<Rightarrow> n | None \<Rightarrow> affected_sensor ?h1) = affected"
    using assms(2) by (cases arg_sensor) simp_all
  have v: "valid_sensor affected ?h1"
    using assms(3) by (simp add: valid_sensor_def)
  show ?thesis
    unfolding trigger_pressure_drop_def Let_def if_not_P [OF assms(1)] a if_P [OF v]
    by (simp split: prod.splits) blast
qed

lemma cancel_when_active:
  assumes "trigger_active h"
    and "affected = (case arg_sensor of Some n \<Rightarrow> n | None \<Rightarrow> affected_sensor h)"
    and "valid_sensor affected h"
    and "stored_state h = Some st"
  shows "trigger_pressure_drop now arg_target arg_duration arg_rate arg_sensor h =
     notify (Pressure_drop_stopped affected)
       (h\<lparr>restore_timer := None, trigger_active := False,
          simulators := (simulators h)
            [nat (affected - 1) :=
               set_rate (stored_rate st * 60)
                 (set_target (stored_target st) (stop (simulators h ! nat (affected - 1))))],
          stored_state := None\<rparr>)"
proof -
  let ?h1 = "h\<lparr>restore_timer := None, trigger_active := False\<rparr>"
  have a: "(case arg_sensor of Some n \<Rightarrow> n | None \<Rightarrow> affected_sensor ?h1) = affected"
    using assms(2) by (cases arg_sensor) simp_all
  have v: "valid_sensor affected ?h1"
    using assms(3) by (simp add: valid_sensor_def)
  show ?thesis
    unfolding trigger_pressure_drop_def Let_def if_P [OF assms(1)] a if_P [OF v]
    using assms(4) by simp
qed

text \<open>
  X3. In exact arithmetic, a trigger on an inactive hub followed by a cancelling trigger
  that resolves to the same valid channel leaves the hub inactive with no pending timer
  and no snapshot, and that channel's simulator stopped with the target and the rate it
  had before the first trigger, provided that target was in \<open>[0, 1.6]\<close>; the
  other arguments of both calls do not matter.
\<close>

theorem trigger_then_cancel_restores:
  assumes "\<not> trigger_active h"
    and "affected = (case arg_sensor of Some n \<Rightarrow> n | None \<Rightarrow> affected_sensor h)"
    and "affected = (case arg_sensor' of Some n \<Rightarrow> n | None \<Rightarrow> affected_sensor h)"
    and "valid_sensor affected h"
    and "0 \<le> target_pressure (simulators h ! nat (affected - 1))"
    and "target_pressure (simulators h ! nat (affected - 1)) \<le> 16 / 10"
  shows "(let h' = trigger_pressure_drop now' arg_target' arg_duration' arg_rate' arg_sensor'
                     (trigger_pressure_drop now arg_target arg_duration arg_rate arg_sensor h);
              simulator = simulators h' ! nat (affected - 1)
          in \<not> trigger_active h' \<and> restore_timer h' = None \<and> stored_state h' = None \<and>
             \<not> running simulator \<and>
             target_pressure simulator = target_pressure (simulators h ! nat (affected - 1)) \<and>
             rate_bar_per_sec simulator = rate_bar_per_sec (simulators h ! nat (affected - 1)))"
proof -
  let ?i = "nat (affected - 1)"
  let ?h1 = "trigger_pressure_drop now arg_target arg_duration arg_rate arg_sensor h"
  let ?st = "\<lparr>stored_target = target_pressure (simulators h ! ?i),
              stored_rate = rate_bar_per_sec (simulators h ! ?i)\<rparr>"
  obtain dt cd dr where h1: "?h1 =
       (notify (Pressure_drop affected (current_pressure (simulators h ! ?i)) dt dr cd)
          (h\<lparr>trigger_active := True, stored_state := Some ?st,
             simulators := (simulators h)
               [?i := start now (set_rate (dr * 60) (set_target dt (simulators h ! ?i)))]\<rparr>))
       \<lparr>restore_timer :=
          Some \<lparr>restore_delay = cd + 1 / 2, captured_simulator = ?i,
                original_target = target_pressure (simulators h ! ?i),
                original_rate = rate_bar_per_sec (simulators h ! ?i),
                captured_affected = affected\<rparr>\<rparr>"
    using trigger_when_inactive [OF assms(1,2,4), of now arg_target arg_duration arg_rate]
    by blast
  have i: "?i < length (simulators h)"
    using assms(4) by (simp add: valid_sensor_def) linarith
  have act: "trigger_active ?h1" unfolding h1 by (simp add: notify_fields)
  have st: "stored_state ?h1 = Some ?st" unfolding h1 by (simp add: notify_fields)
  have len: "length (simulators ?h1) = length (simulators h)"
    unfolding h1 by (simp add: notify_fields)
  have aff: "affected = (case arg_sensor' of Some n \<Rightarrow> n | None \<Rightarrow> affected_sensor ?h1)"
    using assms(3) unfolding h1 by (cases arg_sensor') (simp_all add: notify_fields)
  have val: "valid_sensor affected ?h1"
    using assms(4) len by (simp add: valid_sensor_def)
  have i1: "?i < length (simulators ?h1)" using i len by simp
  show ?thesis
    unfolding Let_def
      cancel_when_active [OF act aff val st, of now' arg_target' arg_duration' arg_rate']
    using i1 assms(5,6)
    by (simp add: notify_fields set_rate_def set_target_def stop_def)
qed

theorem trigger_then_cancel_restores_witness:
  "\<not> trigger_active hub12 \<and> valid_sensor 1 hub12 \<and>
   target_pressure (simulators hub12 ! nat (1 - 1)) = 1 \<and>
   \<not> trigger_active (trigger_pressure_drop 2 (Some 1) None None None hub12_dropping) \<and>
   restore_timer (trigger_pressure_drop 2 (Some 1) None None None hub12_dropping) = None \<and>
   stored_state (trigger_pressure_drop 2 (Some 1) None None None hub12_dropping) = None \<and>
   target_pressure
     (simulators (trigger_pressure_drop 2 (Some 1) None None None hub12_dropping) ! nat (1 - 1))
     = 1 \<and>
   rate_bar_per_sec
     (simulators (trigger_pressure_drop 2 (Some 1) None None None hub12_dropping) ! nat (1 - 1))
     = 1 / 10"
proof -
  have a: "\<not> trigger_active hub12" by (simp add: hub12_def ModbusHub_init_def)
  have b: "1 = (case Some 1 of Some n \<Rightarrow> n | None \<Rightarrow> affected_sensor hub12)" by simp
  have c: "1 = (case None of Some n \<Rightarrow> n | None \<Rightarrow> affected_sensor hub12)"
    by (simp add: hub12_def ModbusHub_init_def)
  have d: "valid_sensor 1 hub12" by (simp add: hub12_def ModbusHub_init_def valid_sensor_def)
  have e: "target_pressure (simulators hub12 ! nat (1 - 1)) = 1"
    by (simp add: hub12_def ModbusHub_init_def sim1_fields)
  have f: "rate_bar_per_sec (simulators hub12 ! nat (1 - 1)) = 1 / 10"
    by (simp add: hub12_def ModbusHub_init_def sim1_fields)
  have g: "0 \<le> target_pressure (simulators hub12 ! nat (1 - 1))"
          "target_pressure (simulators hub12 ! nat (1 - 1)) \<le> 16 / 10"
    unfolding e by simp_all
  show ?thesis
    using trigger_then_cancel_restores [OF a b c d g, of 2 "Some 1" None None 0 None None None]
      a d e f
    unfolding Let_def hub12_dropping_def by simp
qed

text \<open>
  C2. The claim fails on the code when the cancelling call names another channel. With
  channel 1 dropping (target 0, rate 0.5 bar/s, snapshot: target 1.0, rate 0.1 bar/s), a
  cancelling \<^verbatim>\<open>trigger_pressure_drop(sensor=2)\<close> clears the flag, the timer and the
  snapshot, but stops channel 2 and writes channel 1's snapshot into it, and leaves
  channel 1 running toward 0. A cancelling call with the invalid channel 5 clears the
  flag and the timer and restores nothing; the snapshot stays.
\<close>

theorem cancel_with_other_sensor:
  "trigger_active hub12_dropping \<and>
   stored_state hub12_dropping = Some \<lparr>stored_target = 1, stored_rate = 1 / 10\<rparr> \<and>
   \<not> trigger_active hub12_cancelled_other \<and>
   restore_timer hub12_cancelled_other = None \<and>
   stored_state hub12_cancelled_other = None \<and>
   target_pressure (simulators hub12_cancelled_other ! 0) = 0 \<and>
   rate_bar_per_sec (simulators hub12_cancelled_other ! 0) = 1 / 2 \<and>
   running (simulators hub12_cancelled_other ! 0) \<and>
   target_pressure (simulators hub12 ! 1) = 12 / 10 \<and>
   rate_bar_per_sec (simulators hub12 ! 1) = 2 / 10 \<and>
   target_pressure (simulators hub12_cancelled_other ! 1) = 1 \<and>
   rate_bar_per_sec (simulators hub12_cancelled_other ! 1) = 1 / 10 \<and>
   \<not> trigger_active hub12_cancelled_invalid \<and>
   restore_timer hub12_cancelled_invalid = None \<and>
   stored_state hub12_cancelled_invalid = Some \<lparr>stored_target = 1, stored_rate = 1 / 10\<rparr> \<and>
   target_pressure (simulators hub12_cancelled_invalid ! 0) = 0 \<and>
   running (simulators hub12_cancelled_invalid ! 0)"
  by (simp add: hub12_cancelled_other_def hub12_cancelled_invalid_def hub12_dropping_eq
        trigger_pressure_drop_def hub12_def ModbusHub_init_def valid_sensor_def notify_def
        Let_def sim1_fields sim2_fields start_def stop_def set_rate_def set_target_def)

text \<open>
  X4. When the timer fires, \<open>restore\<close> puts the original target and rate back into the
  simulator its closure captured, whatever was called in between, and leaves it stopped,
  with the hub inactive and the snapshot dropped (the target being in \<open>[0, 1.6]\<close>).
\<close>

theorem restore_restores_captured:
  assumes "captured_simulator tm < length (simulators h)"
    and "0 \<le> original_target tm" and "original_target tm \<le> 16 / 10"
  shows "(let h' = restore tm h; simulator = simulators h' ! captured_simulator tm
          in \<not> trigger_active h' \<and> stored_state h' = None \<and> \<not> running simulator \<and>
             target_pressure simulator = original_target tm \<and>
             rate_bar_per_sec simulator = original_rate tm)"
  using assms
  by (simp add: restore_def Let_def notify_fields stop_def set_rate_def set_target_def)

theorem restore_restores_captured_witness:
  "restore_timer hub12_dropping =
     Some \<lparr>restore_delay = 11 / 2, captured_simulator = 0, original_target = 1,
           original_rate = 1 / 10, captured_affected = 1\<rparr> \<and>
   (0::nat) < length (simulators hub12_dropping) \<and>
   target_pressure (simulators (restore
       \<lparr>restore_delay = 11 / 2, captured_simulator = 0, original_target = 1,
        original_rate = 1 / 10, captured_affected = 1\<rparr> hub12_dropping) ! 0) = 1 \<and>
   rate_bar_per_sec (simulators (restore
       \<lparr>restore_delay = 11 / 2, captured_simulator = 0, original_target = 1,
        original_rate = 1 / 10, captured_affected = 1\<rparr> hub12_dropping) ! 0) = 1 / 10 \<and>
   \<not> running (simulators (restore
       \<lparr>restore_delay = 11 / 2, captured_simulator = 0, original_target = 1,
        original_rate = 1 / 10, captured_affected = 1\<rparr> hub12_dropping) ! 0)"
  using restore_restores_captured
          [of "\<lparr>restore_delay = 11 / 2, captured_simulator = 0, original_target = 1,
                original_rate = 1 / 10, captured_affected = 1\<rparr>" hub12_dropping]
  by (simp add: hub12_dropping_eq Let_def)

section \<open>Timing: the request counter and the shared random stream\<close>

lemma record_all_snoc:
  "record_all (xs @ [x]) = TimingStats_record x (record_all xs)"
  by (simp add: record_all_def)

lemma record_all_total: "total_requests (record_all xs) = int (length xs)"
  by (induction xs rule: rev_induct)
     (simp_all add: record_all_snoc TimingStats_record_def, simp add: record_all_def TimingStats_init_def)

lemma deque_append_drop:
  "deque_append 100 x (drop (length xs - 100) xs) = drop (length (xs @ [x]) - 100) (xs @ [x])"
proof (cases "100 \<le> length xs")
  case True
  then have "tl (drop (length xs - 100) xs @ [x]) = drop (Suc (length xs - 100)) (xs @ [x])"
    by (simp add: drop_Suc [symmetric] tl_drop del: drop_Suc)
  moreover have "Suc (length xs - 100) = length (xs @ [x]) - 100" using True by simp
  ultimately show ?thesis using True by (simp add: deque_append_def Let_def)
next
  case False
  then show ?thesis by (simp add: deque_append_def Let_def)
qed

lemma record_all_times: "response_times (record_all xs) = drop (length xs - 100) xs"
proof (induction xs rule: rev_induct)
  case Nil
  show ?case by (simp add: record_all_def TimingStats_init_def)
next
  case (snoc x xs)
  show ?case
    unfolding record_all_snoc using deque_append_drop [of x xs] snoc
    by (simp add: TimingStats_record_def)
qed

lemma py_min_Inr: "xs \<noteq> [] \<Longrightarrow> \<exists>m. py_min xs = Inr m"
  by (cases xs) (simp_all add: py_min_def)

lemma py_max_Inr: "xs \<noteq> [] \<Longrightarrow> \<exists>m. py_max xs = Inr m"
  by (cases xs) (simp_all add: py_max_def)

lemma get_stats_Inr: "\<exists>st. get_stats ts = Inr st \<and> stat_total_requests st = total_requests ts"
proof (cases "response_times ts = []")
  case True
  then show ?thesis by (simp add: get_stats_def)
next
  case False
  then have n: "real (length (response_times ts)) \<noteq> 0" by simp
  obtain mn where mn: "py_min (response_times ts) = Inr mn" using py_min_Inr [OF False] by blast
  obtain mx where mx: "py_max (response_times ts) = Inr mx" using py_max_Inr [OF False] by blast
  show ?thesis
    using False n mn mx by (simp add: get_stats_def Let_def py_truediv_def)
qed

text \<open>
  C8. After \<open>record\<close> was called once for each of N samples, \<open>get_stats\<close> returns
  (it raises nothing) and reports \<open>total_requests\<close> = N, for every N, while the ring
  buffer holds only the last 100 samples; with no sample recorded it returns 0.0 for the
  average, the minimum, the maximum and the jitter, and 0 requests.
\<close>

theorem total_requests_counts_all:
  "(\<exists>st. get_stats (record_all samples) = Inr st \<and>
         stat_total_requests st = int (length samples)) \<and>
   total_requests (record_all samples) = int (length samples) \<and>
   response_times (record_all samples) = drop (length samples - 100) samples \<and>
   get_stats (record_all []) =
     Inr \<lparr>avg_response_ms = 0, min_response_ms = 0, max_response_ms = 0,
          stat_jitter_ms = 0, stat_total_requests = 0\<rparr>"
proof -
  have "\<exists>st. get_stats (record_all samples) = Inr st \<and>
      stat_total_requests st = int (length samples)"
    using get_stats_Inr [of "record_all samples"] by (simp add: record_all_total)
  moreover have "get_stats (record_all []) =
     Inr \<lparr>avg_response_ms = 0, min_response_ms = 0, max_response_ms = 0,
          stat_jitter_ms = 0, stat_total_requests = 0\<rparr>"
    by (simp add: record_all_def TimingStats_init_def get_stats_def)
  ultimately show ?thesis
    using record_all_total [of samples] record_all_times [of samples] by blast
qed

theorem total_requests_counts_all_witness:
  "(\<exists>st. get_stats (record_all (replicate 101 (21 / 2))) = Inr st \<and>
         stat_total_requests st = 101) \<and>
   total_requests (record_all (replicate 101 (21 / 2))) = 101 \<and>
   length (response_times (record_all (replicate 101 (21 / 2)))) = 100"
  using total_requests_counts_all [of "replicate 101 (21 / 2)"] by simp

lemma uniform_zero: "fst (uniform ops (- 0) 0 g) = 0"
  by (simp add: uniform_def split: prod.splits)

lemma get_delay_value_state:
  "snd (get_delay_value ops t) = t\<lparr>timer_rng := snd (next_random ops (timer_rng t))\<rparr>"
  by (simp add: get_delay_value_def uniform_def Let_def split: prod.splits)

lemma delay_state:
  "snd (delay ops e t) =
     t\<lparr>timer_rng := snd (next_random ops (timer_rng t)),
       slept := slept t @ [fst (get_delay_value ops t)],
       stats := TimingStats_record e (stats t)\<rparr>"
  by (simp add: delay_def get_delay_value_def uniform_def Let_def split: prod.splits)

lemma get_delay_value_fst:
  "fst (get_delay_value ops t) =
     max 0 (of_int (base_delay_ms t) / 1000 +
            fst (uniform ops (- of_int (jitter_ms t)) (of_int (jitter_ms t)) (timer_rng t)) / 1000)"
  by (simp add: get_delay_value_def Let_def split: prod.splits)

text \<open>
  C10 (amended). \<open>get_delay_value\<close> changes nothing of the timer but the generator,
  which it advances by one draw exactly as \<open>delay\<close> does: the statistics (samples and
  \<open>total_requests\<close>) are unchanged and nothing is slept. A \<open>delay\<close> that follows an
  inserted \<open>get_delay_value\<close> therefore sleeps the value of the stream's next position,
  the one a second \<open>get_delay_value\<close> would have returned, and not the value the
  inserted call consumed; the two differ only when those draws differ, and with
  \<open>jitter_ms = 0\<close> every value is \<open>max(0, base_delay_ms / 1000)\<close>, so the insertion
  changes no delay value.
\<close>

theorem get_delay_value_shares_stream:
  "snd (get_delay_value ops t) = t\<lparr>timer_rng := snd (next_random ops (timer_rng t))\<rparr> \<and>
   stats (snd (get_delay_value ops t)) = stats t \<and>
   slept (snd (get_delay_value ops t)) = slept t \<and>
   timer_rng (snd (get_delay_value ops t)) = timer_rng (snd (delay ops e t)) \<and>
   slept (snd (delay ops e t)) = slept t @ [fst (get_delay_value ops t)] \<and>
   slept (snd (delay ops e (snd (get_delay_value ops t)))) =
     slept t @ [fst (get_delay_value ops (snd (get_delay_value ops t)))] \<and>
   (if jitter_ms t = 0
    then fst (get_delay_value ops t) = max 0 (of_int (base_delay_ms t) / 1000) \<and>
         slept (snd (delay ops e (snd (get_delay_value ops t)))) = slept (snd (delay ops e t))
    else True)"
proof -
  have z: "fst (get_delay_value ops u) = max 0 (of_int (base_delay_ms u) / 1000)"
    if "jitter_ms u = 0" for u :: "'a ESP32Timer"
    using that uniform_zero [of ops "timer_rng u"] by (simp add: get_delay_value_fst)
  have j: "jitter_ms (snd (get_delay_value ops t)) = jitter_ms t"
          "base_delay_ms (snd (get_delay_value ops t)) = base_delay_ms t"
    by (simp_all add: get_delay_value_state)
  have s: "slept (snd (delay ops e (snd (get_delay_value ops t)))) =
      slept t @ [fst (get_delay_value ops (snd (get_delay_value ops t)))]"
    unfolding delay_state [of ops e "snd (get_delay_value ops t)"]
    by (simp add: get_delay_value_state)
  have c: "fst (get_delay_value ops t) = max 0 (of_int (base_delay_ms t) / 1000) \<and>
      slept (snd (delay ops e (snd (get_delay_value ops t)))) = slept (snd (delay ops e t))"
    if "jitter_ms t = 0"
    using z [OF that] z [of "snd (get_delay_value ops t)"] that j s
    by (simp add: delay_state)
  show ?thesis
  proof (cases "jitter_ms t = 0")
    case True
    show ?thesis
      unfolding if_P [OF True] using c [OF True] s
      by (simp add: get_delay_value_state delay_state)
  next
    case False
    show ?thesis
      unfolding if_not_P [OF False] using s
      by (simp add: get_delay_value_state delay_state)
  qed
qed

theorem get_delay_value_shares_stream_witness:
  "stats (snd (get_delay_value counter_ops (snd (delay counter_ops 10 timer1)))) =
     stats (snd (delay counter_ops 10 timer1)) \<and>
   slept (snd (delay counter_ops 11 (snd (delay counter_ops 10 timer1)))) = [10 / 1000, 11 / 1000] \<and>
   slept (snd (delay counter_ops 11
      (snd (get_delay_value counter_ops (snd (delay counter_ops 10 timer1)))))) =
     [10 / 1000, 8 / 1000]"
  using get_delay_value_shares_stream [of counter_ops "snd (delay counter_ops 10 timer1)" 11]
  by (simp add: delay_state get_delay_value_state timer1_def ESP32Timer_init_def new_rng_def
        counter_ops_def get_delay_value_def uniform_def Let_def)

text \<open>
  The claim as written fails for a timer without jitter: for
  \<^verbatim>\<open>ESP32Timer(base_delay_ms=5, jitter_ms=0, seed=42)\<close> the second \<open>delay\<close> computes
  0.005 s whether or not a \<open>get_delay_value\<close> call is inserted before it.
\<close>

theorem get_delay_value_shares_stream_counterexample:
  "slept (snd (delay counter_ops 6
      (snd (get_delay_value counter_ops (snd (delay counter_ops 5 timer0)))))) =
   slept (snd (delay counter_ops 6 (snd (delay counter_ops 5 timer0))))"
  by (simp add: delay_state get_delay_value_state timer0_def ESP32Timer_init_def new_rng_def
        counter_ops_def get_delay_value_def uniform_def Let_def)

section \<open>Device: the configuration mutators\<close>

lemma getValues_setValues:
  "a < length block \<Longrightarrow> getValues a (Suc 0) (setValues a [v] block) = [v]"
  by (simp add: getValues_def setValues_def)

lemma getValues_nth:
  "a < length block \<Longrightarrow> getValues a (Suc 0) block = [block ! a]"
  by (simp add: getValues_def Cons_nth_drop_Suc [symmetric])

lemma fold_update_length:
  "length (fold (\<lambda>i vs. vs[f i := c]) is vs) = length vs"
  by (induction "is" arbitrary: vs) simp_all

lemma device1_length: "length (holding_registers device1) = 32769"
  by (simp add: device1_def ModbusDevice_init_def Let_def fold_update_length)

lemma device1_uart: "getValues 8192 (Suc 0) (holding_registers device1) = [0]"
proof -
  have "holding_registers device1 ! 8192 = 0"
    by (simp add: device1_def ModbusDevice_init_def Let_def fold_update_length)
  then show ?thesis
    using device1_length by (simp add: getValues_nth)
qed

text \<open>
  X5. \<open>set_data_type\<close> (channel 1..8, data type 0..4) and \<open>set_device_address\<close>
  (address 1..255) check their arguments and, for every out-of-range argument, return the
  device unchanged; neither raises.
\<close>

theorem range_guards_ignore_bad_input:
  "(if 1 \<le> ch \<and> ch \<le> 8 \<and> 0 \<le> data_type \<and> data_type \<le> 4 then True
    else set_data_type ch data_type d = d) \<and>
   (if 1 \<le> address \<and> address \<le> 255 then True else set_device_address address d = d)"
  by (simp add: set_data_type_def set_device_address_def)

theorem range_guards_ignore_bad_input_witness:
  "set_data_type 9 3 device1 = device1 \<and> set_data_type 1 5 device1 = device1 \<and>
   set_device_address 0 device1 = device1 \<and> set_device_address 256 device1 = device1"
  using range_guards_ignore_bad_input
          [where ch = 9 and data_type = 3 and address = 0 and d = device1]
        range_guards_ignore_bad_input
          [where ch = 1 and data_type = 5 and address = 256 and d = device1]
  by simp

text \<open>
  C3. The claim fails on the code for \<open>set_uart_params\<close>, which has no guard. On a
  fresh device, whose register 0x2000 holds 0, the parity code 3 and the baud code 9,
  neither of them in the tables, are written as 0x0309; the parity code -1 stores the
  word -256; and the baud code 256 spills into the parity byte: the register then decodes
  to 4800 baud with even parity while the cached values are 9600 and 'N'.
\<close>

theorem set_uart_params_unchecked:
  "getValues REG_UART_PARAMS 1 (holding_registers device1) = [0] \<and>
   PARITY_MODES 3 = None \<and> BAUD_RATES 9 = None \<and>
   getValues REG_UART_PARAMS 1 (holding_registers (set_uart_params 3 9 device1)) = [777] \<and>
   getValues REG_UART_PARAMS 1 (holding_registers (set_uart_params (- 1) 0 device1)) = [- 256] \<and>
   getValues REG_UART_PARAMS 1 (holding_registers (set_uart_params 0 256 device1)) = [256] \<and>
   get_uart_params (set_uart_params 0 256 device1) = Inr (4800, ''E'') \<and>
   current_baudrate (set_uart_params 0 256 device1) = 9600 \<and>
   current_parity (set_uart_params 0 256 device1) = ''N''"
  using device1_length
  by (simp add: device1_uart set_uart_params_def get_uart_params_def py_first_def Let_def
        getValues_setValues BAUD_RATES_def PARITY_MODES_def dict_get_def push_bit_eq_mult)

end
